theory Spec2Isabelle
  imports Main
begin

section \<open>JavaScript values used by the client\<close>

text \<open>
  Strings are lists of characters. The whitespace that \<open>String.prototype.trim\<close> strips is,
  within the one-byte range of \<^typ>\<open>char\<close>: TAB, LF, VT, FF, CR, SPACE and NBSP.
\<close>

definition isSpace :: "char \<Rightarrow> bool" where
  "isSpace c = (c \<in> set [CHR 0x09, CHR 0x0A, CHR 0x0B, CHR 0x0C, CHR 0x0D, CHR 0x20, CHR 0xA0])"

definition trim :: "string \<Rightarrow> string" where
  "trim s = rev (dropWhile isSpace (rev (dropWhile isSpace s)))"

text \<open>\<open>s || d\<close> for a string \<open>s\<close>: the empty string is falsy.\<close>

definition orElse :: "string \<Rightarrow> string \<Rightarrow> string" where
  "orElse s d = (if s = [] then d else s)"

text \<open>\<open>s || null\<close> for a string \<open>s\<close>.\<close>

definition orNull :: "string \<Rightarrow> string option" where
  "orNull s = (if s = [] then None else Some s)"

text \<open>
  A property that may be absent, \<open>null\<close> or a string is a \<^typ>\<open>string option\<close>;
  it is truthy when it is a non-empty string.
\<close>

fun truthy :: "string option \<Rightarrow> bool" where
  "truthy None = False"
| "truthy (Some s) = (s \<noteq> [])"

text \<open>\<open>x || d\<close> for such a property and a string default.\<close>

definition optOr :: "string option \<Rightarrow> string \<Rightarrow> string" where
  "optOr x d = (case x of None \<Rightarrow> d | Some s \<Rightarrow> orElse s d)"

text \<open>\<open>a || b || null\<close>, as in \<open>response.id || response._id || null\<close>.\<close>

definition firstTruthy :: "string option \<Rightarrow> string option \<Rightarrow> string option" where
  "firstTruthy a b = (if truthy a then a else if truthy b then b else None)"

text \<open>
  Reading a property of \<open>null\<close> or \<open>undefined\<close> throws a \<open>TypeError\<close>. Its message is
  the engine's; the wording here is that of the V8 engine (Chrome, Node), and nothing
  below depends on more than
  its not being empty.
\<close>

definition nullRead :: "string \<Rightarrow> string" where
  "nullRead property =
     ''Cannot read properties of null (reading '' @ [CHR 0x27] @ property @ [CHR 0x27] @ '')''"

section \<open>Data exchanged with the session store\<close>

text \<open>The body of \<open>POST /api/chat\<close>; \<open>session_id\<close> is \<open>None\<close> when the key is not set.\<close>

record ChatData =
  req_name :: string
  req_problem :: "string option"
  req_message :: string
  req_session_id :: "string option"

text \<open>
  The fields that the client reads of a response body that is a JSON object (a body that
  is a string or a number reads as an object without these fields). A body that is JSON
  \<open>null\<close> is \<open>None\<close> of \<^typ>\<open>'a option\<close> wherever a body is passed.
\<close>

record ChatResponse =
  resp_ai_response :: "string option"
  resp_id :: "string option"
  resp_underscore_id :: "string option"

text \<open>The object handed to \<open>onChatComplete\<close>.\<close>

record Completion =
  done_problem :: string
  done_name :: string
  done_ai_response :: string
  done_id :: "string option"

text \<open>The body of \<open>PATCH /api/sessions/:id\<close>: only the supplied keys are present.\<close>

record Updates =
  upd_problem :: "string option"
  upd_pinned :: "bool option"

text \<open>What a handler does to the outside world, in order.\<close>

datatype event =
    CreateChat ChatData
  | ListSessions
  | UpdateSession "string option" Updates
  | DeleteSession "string option"
  | ChatComplete Completion
  | Alert string

fun isStoreCall :: "event \<Rightarrow> bool" where
  "isStoreCall (ChatComplete _) = False"
| "isStoreCall (Alert _) = False"
| "isStoreCall _ = True"

section \<open>The chat component with session continuation\<close>

datatype msg_type = User | Ai

record Message =
  msg_type :: msg_type
  content :: "string option"
  msg_name :: "string option"
  additional :: "string option"

record PatientInfo =
  pi_name :: string
  pi_problem :: string

record FieldErrors =
  fe_name :: bool
  fe_message :: bool

record ChatState =
  name :: string
  problem :: string
  message :: string
  loading :: bool
  error :: string
  fieldErrors :: FieldErrors
  messages :: "Message list"
  hasInitialSubmission :: bool
  initialPatientInfo :: PatientInfo
  currentSessionId :: "string option"

definition noSpecificDisease :: string where
  "noSpecificDisease = ''No specific disease mentioned''"

text \<open>The state of a freshly mounted component (the \<open>useState\<close> initial values).\<close>

definition initialState :: ChatState where
  "initialState =
     \<lparr>name = [], problem = [], message = [], loading = False, error = [],
      fieldErrors = \<lparr>fe_name = False, fe_message = False\<rparr>, messages = [],
      hasInitialSubmission = False,
      initialPatientInfo = \<lparr>pi_name = [], pi_problem = []\<rparr>,
      currentSessionId = None\<rparr>"

text \<open>\<open>handleSubmit\<close>, the request: \<open>patientName\<close>, \<open>patientProblem\<close> and \<open>chatData\<close>.\<close>

definition patientName :: "ChatState \<Rightarrow> string" where
  "patientName s =
     (if hasInitialSubmission s then pi_name (initialPatientInfo s)
      else orElse (trim (name s)) ''Anonymous'')"

definition patientProblem :: "ChatState \<Rightarrow> string option" where
  "patientProblem s =
     (if hasInitialSubmission s then
        (if pi_problem (initialPatientInfo s) \<noteq> noSpecificDisease
         then Some (pi_problem (initialPatientInfo s)) else None)
      else orNull (trim (problem s)))"

definition chatData :: "ChatState \<Rightarrow> ChatData" where
  "chatData s =
     \<lparr>req_name = patientName s, req_problem = patientProblem s,
      req_message = trim (message s),
      req_session_id =
        (if hasInitialSubmission s \<and> truthy (currentSessionId s)
         then currentSessionId s else None)\<rparr>"

definition userMessage :: "ChatState \<Rightarrow> Message" where
  "userMessage s =
     \<lparr>msg_type = User, content = Some (trim (message s)),
      msg_name = Some (if hasInitialSubmission s then pi_name (initialPatientInfo s)
                       else orElse (trim (name s)) ''Anonymous''),
      additional = None\<rparr>"

text \<open>
  The validation at the head of \<open>handleSubmit\<close>: \<open>Some\<close> of the state with the error
  set when the handler returns early, \<open>None\<close> when validation passes.
\<close>

definition validate :: "ChatState \<Rightarrow> ChatState option" where
  "validate s =
     (if \<not> hasInitialSubmission s \<and> trim (name s) = [] then
        Some (s\<lparr>error := ''Please enter your name'',
               fieldErrors := \<lparr>fe_name = True, fe_message = False\<rparr>\<rparr>)
      else if trim (message s) = [] then
        Some (s\<lparr>error := (if hasInitialSubmission s
                           then ''Please enter your question or message''
                           else ''Please describe your medical issue or symptoms''),
               fieldErrors := \<lparr>fe_name = False, fe_message = True\<rparr>\<rparr>)
      else None)"

text \<open>
  The state while the request is outstanding: errors cleared, \<open>loading\<close> set, the user's
  turn already appended.
\<close>

definition pending :: "ChatState \<Rightarrow> ChatState" where
  "pending s =
     s\<lparr>error := [], fieldErrors := \<lparr>fe_name = False, fe_message = False\<rparr>,
       loading := True, messages := messages s @ [userMessage s]\<rparr>"

text \<open>
  The rest of the \<open>try\<close> block once \<open>createChat\<close> has returned a \<open>response\<close> that is
  not \<open>null\<close>. The values
  \<open>name\<close>, \<open>problem\<close>, \<open>message\<close>, \<open>hasInitialSubmission\<close> and \<open>currentSessionId\<close> are
  those of the render in which the handler was created (state \<open>s\<close>); the setters act on
  the pending state \<open>p\<close>.
\<close>

definition onSuccess :: "ChatState \<Rightarrow> ChatResponse \<Rightarrow> ChatState \<Rightarrow> ChatState \<times> event list" where
  "onSuccess s response p =
     (let aiResponse = optOr (resp_ai_response response) [];
          sessionId = firstTruthy (resp_id response) (resp_underscore_id response);
          p1 = p\<lparr>messages := messages p @
                 [\<lparr>msg_type = Ai, content = Some aiResponse, msg_name = None,
                   additional = None\<rparr>]\<rparr>;
          p2 = (if \<not> hasInitialSubmission s then
                  p1\<lparr>initialPatientInfo :=
                        \<lparr>pi_name = orElse (trim (name s)) ''Anonymous'',
                         pi_problem = orElse (trim (problem s)) noSpecificDisease\<rparr>,
                     hasInitialSubmission := True,
                     currentSessionId := sessionId\<rparr>
                else if truthy sessionId \<and> sessionId \<noteq> currentSessionId s then
                  p1\<lparr>currentSessionId := sessionId\<rparr>
                else p1)
      in (p2\<lparr>message := []\<rparr>,
          [ChatComplete
             \<lparr>done_problem = orElse (trim (problem s)) (take 50 (trim (message s))),
              done_name = orElse (trim (name s)) ''Anonymous'',
              done_ai_response = aiResponse,
              done_id = sessionId\<rparr>]))"

text \<open>The \<open>catch\<close> block: \<open>err\<close> is the message of the thrown \<open>Error\<close>.\<close>

definition onFailure :: "string \<Rightarrow> ChatState \<Rightarrow> ChatState" where
  "onFailure err p = p\<lparr>error := orElse err ''An unexpected error occurred''\<rparr>"

text \<open>
  \<open>handleSubmit\<close>. The imported \<open>createChat\<close> either returns the response body or throws
  an \<open>Error\<close> with a message. When the body is \<open>null\<close> the first statement after the
  call, which reads \<open>response.ai_response\<close>, throws, and the \<open>catch\<close> block takes over as
  for any other error. The result is the state after the handler has settled and the
  events it caused.
\<close>

definition handleSubmit ::
  "(ChatData \<Rightarrow> string + ChatResponse option) \<Rightarrow> ChatState \<Rightarrow> ChatState \<times> event list" where
  "handleSubmit createChat s =
     (case validate s of
        Some s' \<Rightarrow> (s', [])
      | None \<Rightarrow>
          (case createChat (chatData s) of
             Inl err \<Rightarrow>
               ((onFailure err (pending s))\<lparr>loading := False\<rparr>, [CreateChat (chatData s)])
           | Inr None \<Rightarrow>
               ((onFailure (nullRead ''ai_response'') (pending s))\<lparr>loading := False\<rparr>,
                [CreateChat (chatData s)])
           | Inr (Some response) \<Rightarrow>
               (let (p, evs) = onSuccess s response (pending s)
                in (p\<lparr>loading := False\<rparr>, CreateChat (chatData s) # evs))))"

text \<open>
  \<open>createChat\<close> of the API service. \<open>post\<close> is the HTTP layer: it returns the response
  body or fails with an axios error, of which the service reads \<open>response\<close> (when the
  server answered, the body of its answer: \<open>null\<close> or \<open>undefined\<close>, or a value with or
  without a \<open>detail\<close>), \<open>code\<close>, \<open>message\<close> and whether a \<open>request\<close> object is attached. The
  result \<open>Inl m\<close> is an error thrown with message \<open>m\<close>: the service's own
  \<open>throw new Error(m)\<close>, or the \<open>TypeError\<close> of reading \<open>error.response.data.detail\<close>
  from a \<open>null\<close> body inside its \<open>catch\<close> block.
\<close>

datatype error_body = NullBody | Body "string option"

record AxiosError =
  err_response :: "error_body option"
  err_code :: "string option"
  err_message :: string
  err_request :: bool

text \<open>\<open>haystack.includes(needle)\<close>.\<close>

fun jsIncludes :: "string \<Rightarrow> string \<Rightarrow> bool" where
  "jsIncludes [] n = (n = [])"
| "jsIncludes (c # cs) n = (take (length n) (c # cs) = n \<or> jsIncludes cs n)"

definition api_createChat ::
  "(ChatData \<Rightarrow> AxiosError + ChatResponse option) \<Rightarrow> ChatData \<Rightarrow>
   string + ChatResponse option" where
  "api_createChat post patientInput =
     (case post patientInput of
        Inr body \<Rightarrow> Inr body
      | Inl e \<Rightarrow>
          (case err_response e of
             Some NullBody \<Rightarrow> Inl (nullRead ''detail'')
           | Some (Body detail) \<Rightarrow>
               Inl (optOr detail ''An error occurred while processing your request'')
           | None \<Rightarrow>
               if err_code e = Some ''ECONNABORTED'' \<or> jsIncludes (err_message e) ''timeout''
               then Inl ''Request timed out. Please check your connection and try again.''
               else if err_request e
               then Inl ''Unable to connect to the server. Please check if the backend is running.''
               else Inl ''An unexpected error occurred''))"

section \<open>Sessions loaded from history\<close>

record StoredMessage =
  role :: string
  stored_content :: string

text \<open>
  A session object of the history list. \<open>chat_messages\<close> is empty when the \<open>messages\<close>
  key is absent, not an array or an empty array; \<open>pinned\<close> is false when absent.
  \<open>chat_ref\<close> is the identity of the object, which \<open>Object.is\<close> compares: the client never
  mutates a session object, so two values with the same \<open>chat_ref\<close> are one object, and
  every parsed response brings objects with references not seen before.
\<close>

record Chat =
  chat_ref :: nat
  chat_id :: "string option"
  chat_underscore_id :: "string option"
  patient_name :: "string option"
  chat_problem :: "string option"
  additional_info :: "string option"
  ai_response :: "string option"
  chat_messages :: "StoredMessage list"
  pinned :: bool

text \<open>\<open>a || b\<close> on two properties: the value of \<open>b\<close> when \<open>a\<close> is falsy.\<close>

definition orOpt :: "string option \<Rightarrow> string option \<Rightarrow> string option" where
  "orOpt a b = (if truthy a then a else b)"

text \<open>
  \<open>content.match(/Message:\s*(.+)/s)\<close>: the text after the first \<open>Message:\<close>, when some
  character follows it; the group is that text without its leading whitespace, or its last
  character when it is all whitespace (the star gives one character back).
\<close>

fun afterFirst :: "string \<Rightarrow> string \<Rightarrow> string option" where
  "afterFirst n [] = (if n = [] then Some [] else None)"
| "afterFirst n (c # cs) =
     (if take (length n) (c # cs) = n then Some (drop (length n) (c # cs))
      else afterFirst n cs)"

definition messageMatch :: "string \<Rightarrow> string option" where
  "messageMatch s =
     (case afterFirst ''Message:'' s of
        None \<Rightarrow> None
      | Some rest \<Rightarrow>
          if rest = [] then None
          else Some (let g = dropWhile isSpace rest in if g = [] then [last rest] else g))"

text \<open>The last element of \<open>content.split('\n')\<close>.\<close>

definition lastLine :: "string \<Rightarrow> string" where
  "lastLine s = rev (takeWhile (\<lambda>c. c \<noteq> CHR 0x0A) (rev s))"

definition formatMessage :: "Chat \<Rightarrow> StoredMessage \<Rightarrow> Message" where
  "formatMessage currentChat msg =
     (let displayContent =
        (if role msg = ''user'' then
           (case messageMatch (stored_content msg) of
              Some g \<Rightarrow> trim g
            | None \<Rightarrow>
                (let l = lastLine (stored_content msg)
                 in if l \<noteq> [] \<and> \<not> jsIncludes l ''Patient Name:'' \<and> \<not> jsIncludes l ''Problem:''
                    then trim l else stored_content msg))
         else stored_content msg)
      in \<lparr>msg_type = (if role msg = ''user'' then User else Ai),
          content = Some displayContent,
          msg_name = (if role msg = ''user''
                      then Some (optOr (patient_name currentChat) ''Anonymous'') else None),
          additional = None\<rparr>)"

text \<open>The effect on \<open>currentChat\<close>, branch of a selected chat.\<close>

definition loadChat :: "Chat \<Rightarrow> ChatState \<Rightarrow> ChatState" where
  "loadChat currentChat s =
     s\<lparr>name := optOr (patient_name currentChat) [],
       problem := optOr (chat_problem currentChat) [],
       message := [],
       initialPatientInfo :=
         \<lparr>pi_name = optOr (patient_name currentChat) ''Anonymous'',
          pi_problem = optOr (chat_problem currentChat) noSpecificDisease\<rparr>,
       hasInitialSubmission := True,
       currentSessionId :=
         firstTruthy (chat_id currentChat) (chat_underscore_id currentChat),
       messages :=
         (if chat_messages currentChat \<noteq> [] then
            map (formatMessage currentChat) (chat_messages currentChat)
          else
            [\<lparr>msg_type = User,
              content = Some (optOr (additional_info currentChat) []),
              msg_name = Some (optOr (patient_name currentChat) ''Anonymous''),
              additional = additional_info currentChat\<rparr>,
             \<lparr>msg_type = Ai, content = ai_response currentChat, msg_name = None,
              additional = None\<rparr>])\<rparr>"

text \<open>The effect on \<open>currentChat\<close>, branch of no chat selected (new chat).\<close>

definition resetChat :: "ChatState \<Rightarrow> ChatState" where
  "resetChat s =
     s\<lparr>name := [], problem := [], message := [], messages := [], error := [],
       fieldErrors := \<lparr>fe_name = False, fe_message = False\<rparr>, loading := False,
       hasInitialSubmission := False,
       initialPatientInfo := \<lparr>pi_name = [], pi_problem = []\<rparr>,
       currentSessionId := None\<rparr>"

definition chatEffect :: "Chat option \<Rightarrow> ChatState \<Rightarrow> ChatState" where
  "chatEffect currentChat s =
     (case currentChat of Some c \<Rightarrow> loadChat c s | None \<Rightarrow> resetChat s)"

section \<open>The chat component without sessions (Client\_Side)\<close>

record LegacyFieldErrors =
  le_name :: bool
  le_disease :: bool

record LegacyState =
  cs_name :: string
  cs_problem :: string
  cs_message :: string
  cs_response :: "string option"
  cs_loading :: bool
  cs_error :: string
  cs_fieldErrors :: LegacyFieldErrors
  cs_messages :: "Message list"

record LegacyChatData =
  lreq_name :: string
  lreq_problem :: string
  lreq_message :: "string option"

record LegacyCompletion =
  ldone_problem :: string
  ldone_name :: string
  ldone_ai_response :: "string option"
  ldone_id :: "string option"

datatype legacy_event = LegacyCreateChat LegacyChatData | LegacyChatComplete LegacyCompletion

definition legacyChatData :: "LegacyState \<Rightarrow> LegacyChatData" where
  "legacyChatData s =
     \<lparr>lreq_name = orElse (trim (cs_name s)) ''Anonymous'',
      lreq_problem = trim (cs_problem s),
      lreq_message = orNull (trim (cs_message s))\<rparr>"

definition handleSubmit_cs ::
  "(LegacyChatData \<Rightarrow> string + ChatResponse option) \<Rightarrow> LegacyState \<Rightarrow>
   LegacyState \<times> legacy_event list" where
  "handleSubmit_cs createChat s =
     (if trim (cs_name s) = [] then
        (s\<lparr>cs_error := ''Please enter your name'',
           cs_fieldErrors := \<lparr>le_name = True, le_disease = False\<rparr>\<rparr>, [])
      else if trim (cs_problem s) = [] then
        (s\<lparr>cs_error := ''Please describe your disease or medical problem'',
           cs_fieldErrors := \<lparr>le_name = False, le_disease = True\<rparr>\<rparr>, [])
      else
        (let p = s\<lparr>cs_error := [],
                   cs_fieldErrors := \<lparr>le_name = False, le_disease = False\<rparr>,
                   cs_loading := True, cs_response := Some []\<rparr>
         in case createChat (legacyChatData s) of
              Inl err \<Rightarrow>
                (p\<lparr>cs_error := orElse err ''An unexpected error occurred'',
                   cs_loading := False\<rparr>,
                 [LegacyCreateChat (legacyChatData s)])
            | Inr None \<Rightarrow>
                (p\<lparr>cs_error := orElse (nullRead ''ai_response'') ''An unexpected error occurred'',
                   cs_loading := False\<rparr>,
                 [LegacyCreateChat (legacyChatData s)])
            | Inr (Some result) \<Rightarrow>
                (p\<lparr>cs_response := resp_ai_response result,
                   cs_messages := cs_messages p @
                     [\<lparr>msg_type = User,
                       content = Some (''Name: '' @ trim (cs_name s) @ [CHR 0x0A] @
                                       ''Disease: '' @ trim (cs_problem s) @
                                       (if trim (cs_message s) \<noteq> []
                                        then [CHR 0x0A] @ ''Additional Info: '' @
                                             trim (cs_message s)
                                        else [])),
                       msg_name = Some (trim (cs_name s)),
                       additional = Some (cs_message s)\<rparr>,
                      \<lparr>msg_type = Ai, content = resp_ai_response result, msg_name = None,
                       additional = None\<rparr>],
                   cs_name := [], cs_problem := [], cs_message := [],
                   cs_loading := False\<rparr>,
                 [LegacyCreateChat (legacyChatData s),
                  LegacyChatComplete
                    \<lparr>ldone_problem = trim (cs_problem s),
                     ldone_name = orElse (trim (cs_name s)) ''Anonymous'',
                     ldone_ai_response = resp_ai_response result,
                     ldone_id = resp_id result\<rparr>])))"

section \<open>The application shell and the history list\<close>

record AppState =
  chatHistory :: "Chat list"
  currentChat :: "Chat option"
  loadingHistory :: bool

definition handleNewChat :: "AppState \<Rightarrow> AppState" where
  "handleNewChat st = st\<lparr>currentChat := None\<rparr>"

definition handleSelectChat :: "Chat \<Rightarrow> AppState \<Rightarrow> AppState" where
  "handleSelectChat c st = st\<lparr>currentChat := Some c\<rparr>"

text \<open>
  \<open>fetchChatHistory\<close> of \<open>App.js\<close>, which calls axios itself; \<open>get\<close> is the outcome of
  \<open>GET /api/sessions\<close> (on success the list of session objects that the API returns;
  a \<open>null\<close> body renders as the empty list). The \<open>catch\<close> block logs before it empties the list, and when the server answered
  the log line reads \<open>err.response.data.detail\<close>: with a \<open>null\<close> body that throws out of
  the \<open>catch\<close> block, so the list is not emptied; \<open>finally\<close> still runs. No caller awaits
  the returned promise, so the rejection itself is not seen.
\<close>

definition fetchChatHistory :: "AxiosError + Chat list \<Rightarrow> AppState \<Rightarrow> AppState \<times> event list" where
  "fetchChatHistory get st =
     (let st1 = st\<lparr>loadingHistory := True\<rparr>;
          st2 = (case get of
                   Inr body \<Rightarrow> st1\<lparr>chatHistory := body\<rparr>
                 | Inl err \<Rightarrow>
                     (case err_response err of
                        Some NullBody \<Rightarrow> st1
                      | _ \<Rightarrow> st1\<lparr>chatHistory := []\<rparr>))
      in (st2\<lparr>loadingHistory := False\<rparr>, [ListSessions]))"

text \<open>
  The other \<open>App\<close> goes through the API service: \<open>fetchChatHistory\<close> of the service turns
  the axios error into an \<open>Error\<close> with a message, \<open>loadChatHistory\<close> catches it.
\<close>

definition api_fetchChatHistory :: "AxiosError + Chat list \<Rightarrow> string + Chat list" where
  "api_fetchChatHistory get =
     (case get of
        Inr body \<Rightarrow> Inr body
      | Inl e \<Rightarrow>
          (case err_response e of
             Some NullBody \<Rightarrow> Inl (nullRead ''detail'')
           | Some (Body detail) \<Rightarrow> Inl (optOr detail ''An error occurred'')
           | None \<Rightarrow>
               if err_code e = Some ''ECONNABORTED'' \<or> jsIncludes (err_message e) ''timeout''
               then Inl ''Request timed out. Please check your connection and try again.''
               else if err_request e
               then Inl ''Unable to connect to the server. Please check if the backend is running.''
               else Inl ''An unexpected error occurred while fetching chat history''))"

definition loadChatHistory :: "string + Chat list \<Rightarrow> AppState \<Rightarrow> AppState \<times> event list" where
  "loadChatHistory fetched st =
     (let st1 = st\<lparr>loadingHistory := True\<rparr>;
          st2 = (case fetched of
                   Inr body \<Rightarrow> st1\<lparr>chatHistory := body\<rparr>
                 | Inl err \<Rightarrow> st1\<lparr>chatHistory := []\<rparr>)
      in (st2\<lparr>loadingHistory := False\<rparr>, [ListSessions]))"

text \<open>\<open>addToHistory\<close> ignores its argument and refreshes.\<close>

definition addToHistory :: "AxiosError + Chat list \<Rightarrow> AppState \<Rightarrow> AppState \<times> event list" where
  "addToHistory get st = fetchChatHistory get st"

text \<open>
  \<open>handleChatUpdate\<close> and \<open>handleChatDelete\<close> of \<open>App.js\<close>. \<open>patch\<close> and \<open>delete\<close> are the
  outcomes of the HTTP calls, \<open>get\<close> that of the refresh which follows a success. The
  first component of the result is \<open>Inl\<close> of what the handler throws: the axios error
  again, after the alert, or the \<open>TypeError\<close> of the log line that reads
  \<open>err.response.data.detail\<close> from a \<open>null\<close> body, before any alert.
\<close>

datatype thrown = Rethrown AxiosError | TypeError string

definition handleChatUpdate ::
  "(string option \<Rightarrow> Updates \<Rightarrow> AxiosError + unit) \<Rightarrow> AxiosError + Chat list \<Rightarrow>
   string option \<Rightarrow> Updates \<Rightarrow> AppState \<Rightarrow> (thrown + unit) \<times> AppState \<times> event list" where
  "handleChatUpdate patch get chatId updates st =
     (case patch chatId updates of
        Inr _ \<Rightarrow>
          (let (st', evs) = fetchChatHistory get st
           in (Inr (), st', UpdateSession chatId updates # evs))
      | Inl err \<Rightarrow>
          (case err_response err of
             Some NullBody \<Rightarrow>
               (Inl (TypeError (nullRead ''detail'')), st, [UpdateSession chatId updates])
           | Some (Body detail) \<Rightarrow>
               (Inl (Rethrown err), st,
                [UpdateSession chatId updates, Alert ''Failed to update chat. Please try again.''])
           | None \<Rightarrow>
               (Inl (Rethrown err), st,
                [UpdateSession chatId updates,
                 Alert (if err_request err then ''Unable to connect to the server.''
                        else ''An unexpected error occurred.'')])))"

definition handleChatDelete ::
  "(string option \<Rightarrow> AxiosError + unit) \<Rightarrow> AxiosError + Chat list \<Rightarrow>
   string option \<Rightarrow> AppState \<Rightarrow> (thrown + unit) \<times> AppState \<times> event list" where
  "handleChatDelete delete get chatId st =
     (case delete chatId of
        Inr _ \<Rightarrow>
          (let st1 = (case currentChat st of
                        Some c \<Rightarrow>
                          if chat_id c = chatId \<or> chat_underscore_id c = chatId
                          then st\<lparr>currentChat := None\<rparr> else st
                      | None \<Rightarrow> st);
               (st', evs) = fetchChatHistory get st1
           in (Inr (), st', DeleteSession chatId # evs))
      | Inl err \<Rightarrow>
          (case err_response err of
             Some NullBody \<Rightarrow>
               (Inl (TypeError (nullRead ''detail'')), st, [DeleteSession chatId])
           | Some (Body detail) \<Rightarrow>
               (Inl (Rethrown err), st,
                [DeleteSession chatId, Alert ''Failed to delete chat. Please try again.''])
           | None \<Rightarrow>
               (Inl (Rethrown err), st,
                [DeleteSession chatId,
                 Alert (if err_request err then ''Unable to connect to the server.''
                        else ''An unexpected error occurred.'')])))"

section \<open>The sidebar: rename, pin, delete\<close>

record SidebarState =
  openMenuId :: "string option"
  renamingChatId :: "string option"
  newChatName :: string
  deletingChat :: "Chat option"
  isDeleting :: bool

text \<open>
  The callbacks \<open>onChatUpdate\<close> and \<open>onChatDelete\<close> act on the state of the parent; a
  handler of the sidebar takes the callback (\<open>None\<close> when the prop is not passed) and
  returns both states.
\<close>

type_synonym 'p onChatUpdate =
  "string option \<Rightarrow> Updates \<Rightarrow> 'p \<Rightarrow> (thrown + unit) \<times> 'p \<times> event list"

type_synonym 'p onChatDelete =
  "string option \<Rightarrow> 'p \<Rightarrow> (thrown + unit) \<times> 'p \<times> event list"

definition handleRename :: "Chat \<Rightarrow> SidebarState \<Rightarrow> SidebarState" where
  "handleRename c sb =
     sb\<lparr>renamingChatId := orOpt (chat_id c) (chat_underscore_id c),
        newChatName := optOr (chat_problem c) ''Untitled Chat'',
        openMenuId := None\<rparr>"

definition handleSaveRename ::
  "'p onChatUpdate option \<Rightarrow> string option \<Rightarrow> SidebarState \<times> 'p \<Rightarrow>
   (SidebarState \<times> 'p) \<times> event list" where
  "handleSaveRename onChatUpdate chatId sp =
     (let (sb, parent) = sp in
      if trim (newChatName sb) \<noteq> [] then
        (case onChatUpdate of
           None \<Rightarrow> ((sb\<lparr>renamingChatId := None, newChatName := []\<rparr>, parent), [])
         | Some update \<Rightarrow>
             (case update chatId
                     \<lparr>upd_problem = Some (trim (newChatName sb)), upd_pinned = None\<rparr> parent of
                (Inr _, parent', evs) \<Rightarrow>
                  ((sb\<lparr>renamingChatId := None, newChatName := []\<rparr>, parent'), evs)
              | (Inl err, parent', evs) \<Rightarrow> ((sb, parent'), evs)))
      else ((sb\<lparr>renamingChatId := None, newChatName := []\<rparr>, parent), []))"

definition handleCancelRename :: "SidebarState \<Rightarrow> SidebarState" where
  "handleCancelRename sb = sb\<lparr>renamingChatId := None, newChatName := []\<rparr>"

text \<open>The \<open>onChange\<close> handler of the rename input.\<close>

definition changeNewChatName :: "string \<Rightarrow> SidebarState \<Rightarrow> SidebarState" where
  "changeNewChatName v sb = sb\<lparr>newChatName := v\<rparr>"

definition handlePin ::
  "'p onChatUpdate option \<Rightarrow> Chat \<Rightarrow> SidebarState \<times> 'p \<Rightarrow> (SidebarState \<times> 'p) \<times> event list" where
  "handlePin onChatUpdate c sp =
     (let (sb, parent) = sp; sb1 = sb\<lparr>openMenuId := None\<rparr> in
      case onChatUpdate of
        None \<Rightarrow> ((sb1, parent), [])
      | Some update \<Rightarrow>
          (case update (orOpt (chat_id c) (chat_underscore_id c))
                  \<lparr>upd_problem = None, upd_pinned = Some (\<not> pinned c)\<rparr> parent of
             (_, parent', evs) \<Rightarrow> ((sb1, parent'), evs)))"

definition handleDelete :: "Chat \<Rightarrow> SidebarState \<Rightarrow> SidebarState" where
  "handleDelete c sb = sb\<lparr>openMenuId := None, deletingChat := Some c\<rparr>"

definition handleConfirmDelete ::
  "'p onChatDelete option \<Rightarrow> SidebarState \<times> 'p \<Rightarrow> (SidebarState \<times> 'p) \<times> event list" where
  "handleConfirmDelete onChatDelete sp =
     (let (sb, parent) = sp in
      case deletingChat sb of
        None \<Rightarrow> ((sb, parent), [])
      | Some c \<Rightarrow>
          (case onChatDelete of
             None \<Rightarrow> ((sb\<lparr>deletingChat := None, isDeleting := False\<rparr>, parent), [])
           | Some del \<Rightarrow>
               (case del (orOpt (chat_id c) (chat_underscore_id c)) parent of
                  (_, parent', evs) \<Rightarrow>
                    ((sb\<lparr>deletingChat := None, isDeleting := False\<rparr>, parent'), evs))))"

definition handleCancelDelete :: "SidebarState \<Rightarrow> SidebarState" where
  "handleCancelDelete sb = sb\<lparr>deletingChat := None, isDeleting := False\<rparr>"

section \<open>The mounted application\<close>

text \<open>
  \<open>App\<close> renders the sidebar and the chat component and passes \<open>handleChatUpdate\<close>,
  \<open>handleChatDelete\<close> and \<open>addToHistory\<close> as their callbacks. The chat component's effect
  depends on \<open>currentChat\<close>: it runs when a committed \<open>App\<close> state carries another
  \<open>currentChat\<close> than the one before, compared as \<open>Object.is\<close> does: \<open>null\<close> against
  \<open>null\<close> is no change, \<open>null\<close> against a session object is one, and two session objects
  are the same when they are one object.
\<close>

definition sameObject :: "Chat option \<Rightarrow> Chat option \<Rightarrow> bool" where
  "sameObject a b = (map_option chat_ref a = map_option chat_ref b)"

record Client =
  app :: AppState
  chat :: ChatState
  sidebar :: SidebarState

definition commitApp :: "AppState \<Rightarrow> Client \<Rightarrow> Client" where
  "commitApp st cl =
     cl\<lparr>app := st,
        chat := (if sameObject (currentChat st) (currentChat (app cl)) then chat cl
                 else chatEffect (currentChat st) (chat cl))\<rparr>"

fun isChatComplete :: "event \<Rightarrow> bool" where
  "isChatComplete (ChatComplete _) = True"
| "isChatComplete _ = False"

text \<open>Submitting the form of the chat component.\<close>

definition submitTurn ::
  "(ChatData \<Rightarrow> string + ChatResponse option) \<Rightarrow> AxiosError + Chat list \<Rightarrow> Client \<Rightarrow>
   Client \<times> event list" where
  "submitTurn createChat get cl =
     (let (c', evs) = handleSubmit createChat (chat cl);
          (st', evs') = (if list_ex isChatComplete evs then addToHistory get (app cl)
                         else (app cl, []))
      in (commitApp st' (cl\<lparr>chat := c'\<rparr>), evs @ evs'))"

text \<open>Confirming the delete modal of the sidebar.\<close>

definition confirmDelete ::
  "(string option \<Rightarrow> AxiosError + unit) \<Rightarrow> AxiosError + Chat list \<Rightarrow> Client \<Rightarrow>
   Client \<times> event list" where
  "confirmDelete delete get cl =
     (let ((sb', st'), evs) =
            handleConfirmDelete (Some (handleChatDelete delete get)) (sidebar cl, app cl)
      in (commitApp st' (cl\<lparr>sidebar := sb'\<rparr>), evs))"

text \<open>Saving a rename in the sidebar.\<close>

definition saveRename ::
  "(string option \<Rightarrow> Updates \<Rightarrow> AxiosError + unit) \<Rightarrow> AxiosError + Chat list \<Rightarrow>
   string option \<Rightarrow> Client \<Rightarrow> Client \<times> event list" where
  "saveRename patch get chatId cl =
     (let ((sb', st'), evs) =
            handleSaveRename (Some (handleChatUpdate patch get)) chatId (sidebar cl, app cl)
      in (commitApp st' (cl\<lparr>sidebar := sb'\<rparr>), evs))"

section \<open>Typing into the form, and conversations of several turns\<close>

text \<open>The \<open>onChange\<close> handlers of the three inputs of the session-aware component.\<close>

definition changeName :: "string \<Rightarrow> ChatState \<Rightarrow> ChatState" where
  "changeName v s =
     (if fe_name (fieldErrors s)
      then s\<lparr>name := v, fieldErrors := (fieldErrors s)\<lparr>fe_name := False\<rparr>, error := []\<rparr>
      else s\<lparr>name := v\<rparr>)"

definition changeProblem :: "string \<Rightarrow> ChatState \<Rightarrow> ChatState" where
  "changeProblem v s = s\<lparr>problem := v\<rparr>"

definition changeMessage :: "string \<Rightarrow> ChatState \<Rightarrow> ChatState" where
  "changeMessage v s =
     (if fe_message (fieldErrors s)
      then s\<lparr>message := v, fieldErrors := (fieldErrors s)\<lparr>fe_message := False\<rparr>, error := []\<rparr>
      else s\<lparr>message := v\<rparr>)"

text \<open>A field is blank when it is empty or whitespace only.\<close>

definition blank :: "string \<Rightarrow> bool" where
  "blank s = list_all isSpace s"

text \<open>A store, or an HTTP layer, whose call has the given outcome whatever it is asked.\<close>

definition answer :: "'b \<Rightarrow> 'a \<Rightarrow> 'b" where
  "answer outcome request = outcome"




section \<open>Scenarios\<close>

text \<open>
  A new chat of a patient called Jane with the given problem and message typed in, two
  responses of the store (with and without an id), the axios error of a request that ran
  into the client's timeout, and the conversation after a first successful turn.
\<close>

definition janeNewChat :: "string \<Rightarrow> string \<Rightarrow> ChatState" where
  "janeNewChat p m = changeMessage m (changeProblem p (changeName ''Jane'' initialState))"

definition replyS1 :: ChatResponse where
  "replyS1 =
     \<lparr>resp_ai_response = Some ''Rest and drink fluids.'', resp_id = Some ''s1'',
      resp_underscore_id = None\<rparr>"


definition replyEmpty :: ChatResponse where
  "replyEmpty = \<lparr>resp_ai_response = None, resp_id = Some ''s1'', resp_underscore_id = None\<rparr>"

definition timeoutError :: AxiosError where
  "timeoutError =
     \<lparr>err_response = None, err_code = Some ''ECONNABORTED'',
      err_message = ''timeout of 30000ms exceeded'', err_request = True\<rparr>"

text \<open>The axios error of a request that the server answered with status 500 and the body \<open>null\<close>.\<close>

definition nullBodyError :: AxiosError where
  "nullBodyError =
     \<lparr>err_response = Some NullBody, err_code = Some ''ERR_BAD_RESPONSE'',
      err_message = ''Request failed with status code 500'', err_request = True\<rparr>"

definition janeActive :: ChatState where
  "janeActive = fst (handleSubmit (answer (Inr (Some replyS1))) (janeNewChat ''fever'' ''I have a fever''))"

text \<open>
  The mounted application, typing into the chat form and clicking in the sidebar, the
  session Jane's first turn creates as the history list shows it, and the client after
  that turn was made from a new chat and after the session was then deleted in the
  sidebar.
\<close>

definition mounted :: Client where
  "mounted =
     \<lparr>app = \<lparr>chatHistory = [], currentChat = None, loadingHistory = True\<rparr>,
      chat = initialState,
      sidebar = \<lparr>openMenuId = None, renamingChatId = None, newChatName = [],
                 deletingChat = None, isDeleting = False\<rparr>\<rparr>"

definition inChat :: "(ChatState \<Rightarrow> ChatState) \<Rightarrow> Client \<Rightarrow> Client" where
  "inChat f cl = cl\<lparr>chat := f (chat cl)\<rparr>"

definition inSidebar :: "(SidebarState \<Rightarrow> SidebarState) \<Rightarrow> Client \<Rightarrow> Client" where
  "inSidebar f cl = cl\<lparr>sidebar := f (sidebar cl)\<rparr>"

definition sessionS1 :: Chat where
  "sessionS1 =
     \<lparr>chat_ref = 1, chat_id = Some ''s1'', chat_underscore_id = None,
      patient_name = Some ''Jane'',
      chat_problem = None, additional_info = Some ''I have a fever'',
      ai_response = Some ''Rest and drink fluids.'', chat_messages = [], pinned = False\<rparr>"

definition startedInPlace :: Client where
  "startedInPlace =
     fst (submitTurn (answer (Inr (Some replyS1))) (Inr [sessionS1])
            (inChat (changeMessage ''I have a fever'') (inChat (changeName ''Jane'') mounted)))"

definition deletedInPlace :: "Client \<times> event list" where
  "deletedInPlace =
     confirmDelete (answer (Inr ())) (Inr []) (inSidebar (handleDelete sessionS1) startedInPlace)"

text \<open>
  The conversation after a first turn whose problem field held the placeholder text, and
  after a first turn whose response carried no id; a draft of the component without
  sessions.
\<close>

definition janePlaceholder :: ChatState where
  "janePlaceholder =
     fst (handleSubmit (answer (Inr (Some replyS1)))
            (janeNewChat ''No specific disease mentioned'' ''I have a fever''))"


definition legacyDraft :: "string \<Rightarrow> string \<Rightarrow> string \<Rightarrow> LegacyState" where
  "legacyDraft n p m =
     \<lparr>cs_name = n, cs_problem = p, cs_message = m, cs_response = Some [],
      cs_loading = False, cs_error = [],
      cs_fieldErrors = \<lparr>le_name = False, le_disease = False\<rparr>, cs_messages = []\<rparr>"

text \<open>
  The bound session id is usable when it is \<open>null\<close> or a non-empty string: every value
  the component stores comes out of \<open>a || b || null\<close> or passed a truthiness test.
\<close>

definition sessionIdUsable :: "ChatState \<Rightarrow> bool" where
  "sessionIdUsable s = (currentSessionId s = None \<or> truthy (currentSessionId s))"

section \<open>Blank fields and validation\<close>

lemma all_dropWhile_iff:
  "(\<forall>x \<in> set (dropWhile P s). P x) \<longleftrightarrow> (\<forall>x \<in> set s. P x)"
proof
  assume a: "\<forall>x \<in> set (dropWhile P s). P x"
  have "dropWhile P s = []"
  proof (rule ccontr)
    assume n: "dropWhile P s \<noteq> []"
    then have "\<not> P (hd (dropWhile P s))" by (rule hd_dropWhile)
    moreover have "hd (dropWhile P s) \<in> set (dropWhile P s)" using n by simp
    ultimately show False using a by blast
  qed
  then show "\<forall>x \<in> set s. P x" by (simp only: dropWhile_eq_Nil_conv)
next
  assume "\<forall>x \<in> set s. P x"
  then show "\<forall>x \<in> set (dropWhile P s). P x" by (blast dest: set_dropWhileD)
qed

text \<open>\<open>!s.trim()\<close> holds exactly of the blank strings.\<close>

lemma trim_Nil_iff: "trim s = [] \<longleftrightarrow> blank s"
  unfolding trim_def blank_def
  by (simp add: dropWhile_eq_Nil_conv list_all_iff all_dropWhile_iff)

lemma validate_None_iff:
  "validate s = None \<longleftrightarrow>
     (hasInitialSubmission s \<or> \<not> blank (name s)) \<and> \<not> blank (message s)"
  by (auto simp add: validate_def trim_Nil_iff)

lemma validate_blank_name:
  "\<not> hasInitialSubmission s \<Longrightarrow> blank (name s) \<Longrightarrow>
   validate s = Some (s\<lparr>error := ''Please enter your name'',
                        fieldErrors := \<lparr>fe_name = True, fe_message = False\<rparr>\<rparr>)"
  by (simp add: validate_def trim_Nil_iff)

lemma validate_blank_message:
  "hasInitialSubmission s \<Longrightarrow> blank (message s) \<Longrightarrow>
   validate s = Some (s\<lparr>error := ''Please enter your question or message'',
                        fieldErrors := \<lparr>fe_name = False, fe_message = True\<rparr>\<rparr>)"
  by (simp add: validate_def trim_Nil_iff)

section \<open>The two ways a submitted turn settles\<close>

lemma handleSubmit_failure:
  "validate s = None \<Longrightarrow> createChat (chatData s) = Inl err \<Longrightarrow>
   handleSubmit createChat s =
     ((pending s)\<lparr>error := orElse err ''An unexpected error occurred'', loading := False\<rparr>,
      [CreateChat (chatData s)])"
  by (simp add: handleSubmit_def onFailure_def)

lemma handleSubmit_success:
  "validate s = None \<Longrightarrow> createChat (chatData s) = Inr (Some r) \<Longrightarrow>
   handleSubmit createChat s =
     ((fst (onSuccess s r (pending s)))\<lparr>loading := False\<rparr>,
      CreateChat (chatData s) # snd (onSuccess s r (pending s)))"
  by (simp add: handleSubmit_def split: prod.splits)

text \<open>A \<open>null\<close> body: the handler ends in its \<open>catch\<close> block, as after a failed call.\<close>

lemma handleSubmit_null_body:
  "validate s = None \<Longrightarrow> createChat (chatData s) = Inr None \<Longrightarrow>
   handleSubmit createChat s =
     ((pending s)\<lparr>error := nullRead ''ai_response'', loading := False\<rparr>,
      [CreateChat (chatData s)])"
  by (simp add: handleSubmit_def onFailure_def orElse_def nullRead_def)

lemma handleSubmit_null_body_inactive:
  "validate s = None \<Longrightarrow> createChat (chatData s) = Inr None \<Longrightarrow>
   hasInitialSubmission (fst (handleSubmit createChat s)) = hasInitialSubmission s \<and>
   currentSessionId (fst (handleSubmit createChat s)) = currentSessionId s \<and>
   messages (fst (handleSubmit createChat s)) = messages s @ [userMessage s]"
  by (simp add: handleSubmit_null_body pending_def)

text \<open>Whatever a follow-up does, the patient info stored at session start is kept.\<close>

lemma handleSubmit_keeps_patient_info:
  "hasInitialSubmission s \<Longrightarrow>
   initialPatientInfo (fst (handleSubmit createChat s)) = initialPatientInfo s \<and>
   hasInitialSubmission (fst (handleSubmit createChat s))"
  by (auto simp add: handleSubmit_def validate_def onSuccess_def onFailure_def pending_def
      Let_def split: option.splits sum.splits if_splits)

lemma handleSubmit_store_calls:
  "validate s = None \<Longrightarrow>
   filter isStoreCall (snd (handleSubmit createChat s)) = [CreateChat (chatData s)]"
proof (cases "createChat (chatData s)")
  case (Inl err)
  assume "validate s = None"
  then show ?thesis using Inl by (simp add: handleSubmit_failure)
next
  case (Inr body)
  assume v: "validate s = None"
  show ?thesis
  proof (cases body)
    case None
    then show ?thesis using v Inr by (simp add: handleSubmit_null_body)
  next
    case (Some r)
    then show ?thesis
      using v Inr by (simp add: handleSubmit_success onSuccess_def Let_def)
  qed
qed

lemma chatData_active:
  "hasInitialSubmission s \<Longrightarrow> truthy (currentSessionId s) \<Longrightarrow>
   chatData (s\<lparr>name := n, problem := p\<rparr>) =
     \<lparr>req_name = pi_name (initialPatientInfo s),
      req_problem = (if pi_problem (initialPatientInfo s) = noSpecificDisease then None
                     else Some (pi_problem (initialPatientInfo s))),
      req_message = trim (message s),
      req_session_id = currentSessionId s\<rparr>"
  by (simp add: chatData_def patientName_def patientProblem_def)

lemma nullRead_not_empty: "nullRead property \<noteq> []"
  by (simp add: nullRead_def)

lemma api_createChat_failure:
  "post d = Inl e \<Longrightarrow> \<exists>m. api_createChat post d = Inl m \<and> m \<noteq> []"
  by (auto simp add: api_createChat_def optOr_def orElse_def nullRead_def
      split: option.splits error_body.splits)

lemma api_createChat_timeout:
  "post d = Inl e \<Longrightarrow> err_response e = None \<Longrightarrow> err_code e = Some ''ECONNABORTED'' \<Longrightarrow>
   api_createChat post d = Inl ''Request timed out. Please check your connection and try again.''"
  by (simp add: api_createChat_def)

section \<open>The scenarios, evaluated\<close>

lemmas form_defs =
  janeNewChat_def changeName_def changeProblem_def changeMessage_def initialState_def

lemmas submit_defs =
  handleSubmit_def validate_def chatData_def patientName_def patientProblem_def
  userMessage_def pending_def onSuccess_def onFailure_def answer_def trim_def isSpace_def
  nullRead_def
  orElse_def orNull_def optOr_def firstTruthy_def noSpecificDisease_def Let_def

lemma janeNewChat_eq:
  "janeNewChat p m = initialState\<lparr>name := ''Jane'', problem := p, message := m\<rparr>"
  by (simp add: form_defs)

lemma janeActive_eq:
  "janeActive =
     \<lparr>name = ''Jane'', problem = ''fever'', message = [], loading = False, error = [],
      fieldErrors = \<lparr>fe_name = False, fe_message = False\<rparr>,
      messages =
        [\<lparr>msg_type = User, content = Some ''I have a fever'', msg_name = Some ''Jane'',
          additional = None\<rparr>,
         \<lparr>msg_type = Ai, content = Some ''Rest and drink fluids.'', msg_name = None,
          additional = None\<rparr>],
      hasInitialSubmission = True,
      initialPatientInfo = \<lparr>pi_name = ''Jane'', pi_problem = ''fever''\<rparr>,
      currentSessionId = Some ''s1''\<rparr>"
  by (simp add: janeActive_def replyS1_def form_defs submit_defs)

lemma janePlaceholder_eq:
  "janePlaceholder =
     \<lparr>name = ''Jane'', problem = ''No specific disease mentioned'', message = [],
      loading = False, error = [],
      fieldErrors = \<lparr>fe_name = False, fe_message = False\<rparr>,
      messages =
        [\<lparr>msg_type = User, content = Some ''I have a fever'', msg_name = Some ''Jane'',
          additional = None\<rparr>,
         \<lparr>msg_type = Ai, content = Some ''Rest and drink fluids.'', msg_name = None,
          additional = None\<rparr>],
      hasInitialSubmission = True,
      initialPatientInfo =
        \<lparr>pi_name = ''Jane'', pi_problem = ''No specific disease mentioned''\<rparr>,
      currentSessionId = Some ''s1''\<rparr>"
  by (simp add: janePlaceholder_def replyS1_def form_defs submit_defs)


lemmas client_defs =
  submitTurn_def confirmDelete_def commitApp_def addToHistory_def fetchChatHistory_def
  handleConfirmDelete_def handleChatDelete_def handleDelete_def inChat_def inSidebar_def
  mounted_def sessionS1_def orOpt_def chatEffect_def sameObject_def

lemma startedInPlace_eq:
  "startedInPlace =
     \<lparr>app = \<lparr>chatHistory = [sessionS1], currentChat = None, loadingHistory = False\<rparr>,
      chat =
        \<lparr>name = ''Jane'', problem = [], message = [], loading = False, error = [],
         fieldErrors = \<lparr>fe_name = False, fe_message = False\<rparr>,
         messages =
           [\<lparr>msg_type = User, content = Some ''I have a fever'', msg_name = Some ''Jane'',
             additional = None\<rparr>,
            \<lparr>msg_type = Ai, content = Some ''Rest and drink fluids.'', msg_name = None,
             additional = None\<rparr>],
         hasInitialSubmission = True,
         initialPatientInfo = \<lparr>pi_name = ''Jane'', pi_problem = noSpecificDisease\<rparr>,
         currentSessionId = Some ''s1''\<rparr>,
      sidebar = \<lparr>openMenuId = None, renamingChatId = None, newChatName = [],
                 deletingChat = None, isDeleting = False\<rparr>\<rparr>"
  by (simp add: startedInPlace_def replyS1_def client_defs form_defs submit_defs)

section \<open>The bound session id is null or non-empty\<close>

lemma firstTruthy_usable: "firstTruthy a b = None \<or> truthy (firstTruthy a b)"
  by (simp add: firstTruthy_def)

lemma sessionIdUsable_initialState: "sessionIdUsable initialState"
  by (simp add: sessionIdUsable_def initialState_def)

lemma sessionIdUsable_chatEffect: "sessionIdUsable (chatEffect c s)"
proof (cases c)
  case None
  then show ?thesis by (simp add: sessionIdUsable_def chatEffect_def resetChat_def)
next
  case (Some currentChat)
  then show ?thesis
    using firstTruthy_usable [of "chat_id currentChat" "chat_underscore_id currentChat"]
    by (simp add: sessionIdUsable_def chatEffect_def loadChat_def)
qed

lemma sessionIdUsable_change:
  "sessionIdUsable (changeName v s) = sessionIdUsable s"
  "sessionIdUsable (changeProblem v s) = sessionIdUsable s"
  "sessionIdUsable (changeMessage v s) = sessionIdUsable s"
  by (simp_all add: sessionIdUsable_def changeName_def changeProblem_def changeMessage_def)

lemma sessionIdUsable_handleSubmit:
  assumes "sessionIdUsable s"
  shows "sessionIdUsable (fst (handleSubmit createChat s))"
proof (cases "validate s")
  case (Some s')
  then have "currentSessionId s' = currentSessionId s"
    by (auto simp add: validate_def split: if_splits)
  then show ?thesis using Some assms by (simp add: handleSubmit_def sessionIdUsable_def)
next
  case None
  show ?thesis
  proof (cases "createChat (chatData s)")
    case (Inl err)
    then show ?thesis
      using None assms by (simp add: handleSubmit_failure sessionIdUsable_def pending_def)
  next
    case (Inr body)
    show ?thesis
    proof (cases body)
      case nullBody: None
      then show ?thesis
        using None Inr assms
        by (simp add: handleSubmit_null_body sessionIdUsable_def pending_def)
    next
      case (Some r)
      then show ?thesis
        using None Inr assms firstTruthy_usable [of "resp_id r" "resp_underscore_id r"]
        by (auto simp add: handleSubmit_success sessionIdUsable_def pending_def onSuccess_def
            Let_def)
    qed
  qed
qed

text \<open>So an id that is bound and not \<open>null\<close> is one that \<open>session_id\<close> carries.\<close>

lemma sessionIdUsable_bound:
  "sessionIdUsable s \<Longrightarrow> currentSessionId s = Some x \<Longrightarrow> truthy (currentSessionId s)"
  by (auto simp add: sessionIdUsable_def)

section \<open>Follow-up turns of an active session\<close>

text \<open>
  C1 (as amended). In an active session with a session id bound and a non-blank message,
  the one store call of a submission is the request built from the stored initial patient
  info, whatever the \<open>name\<close> and \<open>problem\<close> fields hold: the name is the stored name, the
  problem is the stored problem, except that the placeholder \<open>No specific disease
  mentioned\<close> is sent as \<open>null\<close>, and \<open>session_id\<close> is the bound id.
\<close>

theorem C1_follow_up_request:
  assumes "hasInitialSubmission s" and "truthy (currentSessionId s)"
    and "\<not> blank (message s)"
  shows "filter isStoreCall (snd (handleSubmit createChat (s\<lparr>name := n, problem := p\<rparr>))) =
           [CreateChat
              \<lparr>req_name = pi_name (initialPatientInfo s),
               req_problem = (if pi_problem (initialPatientInfo s) = noSpecificDisease then None
                              else Some (pi_problem (initialPatientInfo s))),
               req_message = trim (message s),
               req_session_id = currentSessionId s\<rparr>]"
proof -
  have "validate (s\<lparr>name := n, problem := p\<rparr>) = None"
    using assms by (simp add: validate_None_iff)
  then show ?thesis
    using assms by (simp add: handleSubmit_store_calls chatData_active)
qed

text \<open>
  Jane's session \<open>s1\<close>, problem \<open>fever\<close>: a follow-up is sent under the stored name and
  problem even when the two fields have been overwritten.
\<close>

theorem C1_follow_up_request_witness:
  "hasInitialSubmission (changeMessage ''Any advice?'' janeActive) \<and>
   truthy (currentSessionId (changeMessage ''Any advice?'' janeActive)) \<and>
   \<not> blank (message (changeMessage ''Any advice?'' janeActive)) \<and>
   filter isStoreCall
     (snd (handleSubmit (answer (Inl ''down''))
        ((changeMessage ''Any advice?'' janeActive)\<lparr>name := ''Joan'', problem := ''cough''\<rparr>))) =
     [CreateChat \<lparr>req_name = ''Jane'', req_problem = Some ''fever'',
                  req_message = ''Any advice?'', req_session_id = Some ''s1''\<rparr>]"
proof -
  let ?s = "changeMessage ''Any advice?'' janeActive"
  have h1: "hasInitialSubmission ?s" by (simp add: changeMessage_def janeActive_eq)
  have h2: "truthy (currentSessionId ?s)" by (simp add: changeMessage_def janeActive_eq)
  have h3: "\<not> blank (message ?s)"
    by (simp add: changeMessage_def janeActive_eq blank_def isSpace_def)
  have t: "trim (message ?s) = ''Any advice?''"
    by (simp add: changeMessage_def janeActive_eq trim_def isSpace_def)
  have i: "initialPatientInfo ?s = \<lparr>pi_name = ''Jane'', pi_problem = ''fever''\<rparr>"
    and c: "currentSessionId ?s = Some ''s1''"
    by (simp_all add: changeMessage_def janeActive_eq)
  from C1_follow_up_request
         [OF h1 h2 h3, where createChat = "answer (Inl ''down'')" and n = "''Joan''"
            and p = "''cough''"]
  show ?thesis
    using h1 h2 h3 by (simp add: t i c noSpecificDisease_def)
qed

text \<open>
  The claim as stated fails: Jane starts a chat with the problem text \<open>No specific disease
  mentioned\<close>; the first request carries that text as the problem, the session \<open>s1\<close> is
  bound and the text is stored, and the follow-up carries \<open>null\<close> as the problem.
\<close>

theorem C1_problem_not_sent_unchanged:
  "filter isStoreCall
     (snd (handleSubmit (answer (Inr (Some replyS1)))
        (janeNewChat ''No specific disease mentioned'' ''I have a fever''))) =
     [CreateChat \<lparr>req_name = ''Jane'', req_problem = Some ''No specific disease mentioned'',
                  req_message = ''I have a fever'', req_session_id = None\<rparr>] \<and>
   hasInitialSubmission janePlaceholder \<and>
   currentSessionId janePlaceholder = Some ''s1'' \<and>
   pi_problem (initialPatientInfo janePlaceholder) = ''No specific disease mentioned'' \<and>
   filter isStoreCall
     (snd (handleSubmit (answer (Inr (Some replyS1))) (changeMessage ''Any advice?'' janePlaceholder))) =
     [CreateChat \<lparr>req_name = ''Jane'', req_problem = None,
                  req_message = ''Any advice?'', req_session_id = Some ''s1''\<rparr>] \<and>
   req_problem (chatData (changeMessage ''Any advice?'' janePlaceholder)) \<noteq>
     Some (pi_problem (initialPatientInfo janePlaceholder))"
  by (simp add: janePlaceholder_eq replyS1_def form_defs submit_defs)

section \<open>Validation of the first turn\<close>

text \<open>
  C2. A submission made before any initial submission with a blank name field returns at
  once: the only change is the error \<open>Please enter your name\<close> with the name field
  marked, and no event, so no store call, is caused. The component without sessions,
  which validates the name on every submission, behaves the same.
\<close>

theorem C2_blank_name_never_reaches_store:
  "(\<not> hasInitialSubmission s \<and> blank (name s) \<longrightarrow>
      handleSubmit createChat s =
        (s\<lparr>error := ''Please enter your name'',
           fieldErrors := \<lparr>fe_name = True, fe_message = False\<rparr>\<rparr>, [])) \<and>
   (blank (cs_name ls) \<longrightarrow>
      handleSubmit_cs createChat' ls =
        (ls\<lparr>cs_error := ''Please enter your name'',
            cs_fieldErrors := \<lparr>le_name = True, le_disease = False\<rparr>\<rparr>, []))"
  by (simp add: handleSubmit_def validate_blank_name handleSubmit_cs_def trim_Nil_iff)

text \<open>A name of two spaces, with problem and message filled in, in both components.\<close>

theorem C2_blank_name_never_reaches_store_witness:
  "\<not> hasInitialSubmission (changeName ''  '' (janeNewChat ''fever'' ''I have a fever'')) \<and>
   blank (name (changeName ''  '' (janeNewChat ''fever'' ''I have a fever''))) \<and>
   snd (handleSubmit (answer (Inr (Some replyS1)))
          (changeName ''  '' (janeNewChat ''fever'' ''I have a fever''))) = [] \<and>
   error (fst (handleSubmit (answer (Inr (Some replyS1)))
          (changeName ''  '' (janeNewChat ''fever'' ''I have a fever'')))) =
     ''Please enter your name'' \<and>
   blank (cs_name (legacyDraft ''  '' ''fever'' ''I have a fever'')) \<and>
   snd (handleSubmit_cs (answer (Inr (Some replyS1)))
          (legacyDraft ''  '' ''fever'' ''I have a fever'')) = [] \<and>
   cs_error (fst (handleSubmit_cs (answer (Inr (Some replyS1)))
          (legacyDraft ''  '' ''fever'' ''I have a fever''))) = ''Please enter your name''"
proof -
  let ?s = "changeName ''  '' (janeNewChat ''fever'' ''I have a fever'')"
  let ?l = "legacyDraft ''  '' ''fever'' ''I have a fever''"
  have h1: "\<not> hasInitialSubmission ?s" by (simp add: form_defs)
  have h2: "blank (name ?s)" by (simp add: form_defs blank_def isSpace_def)
  have h3: "blank (cs_name ?l)" by (simp add: legacyDraft_def blank_def isSpace_def)
  from C2_blank_name_never_reaches_store
         [of ?s "answer (Inr (Some replyS1))" ?l "answer (Inr (Some replyS1))"] h1 h2 h3
  show ?thesis by simp
qed

section \<open>A store call that fails\<close>

text \<open>
  C3. When validation passes and the store call fails, whatever the error thrown, the
  user's turn, appended while the request was outstanding, is still the last turn of the
  transcript (nothing is rolled back and no assistant turn is added), the error message
  of the failure, or a fallback when it has none, is set and is not empty, \<open>loading\<close> is
  false again, and the session binding is as before.
\<close>

theorem C3_failed_call_keeps_user_turn:
  assumes "validate s = None" and "createChat (chatData s) = Inl err"
  shows "messages (pending s) = messages s @ [userMessage s] \<and>
         snd (handleSubmit createChat s) = [CreateChat (chatData s)] \<and>
         messages (fst (handleSubmit createChat s)) = messages s @ [userMessage s] \<and>
         error (fst (handleSubmit createChat s)) = orElse err ''An unexpected error occurred'' \<and>
         error (fst (handleSubmit createChat s)) \<noteq> [] \<and>
         loading (fst (handleSubmit createChat s)) = False \<and>
         hasInitialSubmission (fst (handleSubmit createChat s)) = hasInitialSubmission s \<and>
         currentSessionId (fst (handleSubmit createChat s)) = currentSessionId s"
proof -
  have settled: "handleSubmit createChat s =
      ((pending s)\<lparr>error := orElse err ''An unexpected error occurred'', loading := False\<rparr>,
       [CreateChat (chatData s)])"
    using assms by (rule handleSubmit_failure)
  have shown: "orElse err ''An unexpected error occurred'' \<noteq> []"
    by (simp add: orElse_def)
  show ?thesis
    using shown by (simp add: settled pending_def)
qed

text \<open>
  Jane's first turn, sent through the API service, with the request running into the
  timeout: the service throws its \<open>Request timed out\<close> error and the banner shows it.
\<close>

theorem C3_failed_call_keeps_user_turn_witness:
  "validate (janeNewChat ''fever'' ''I have a fever'') = None \<and>
   api_createChat (answer (Inl timeoutError)) (chatData (janeNewChat ''fever'' ''I have a fever'')) =
     Inl ''Request timed out. Please check your connection and try again.'' \<and>
   messages (fst (handleSubmit (api_createChat (answer (Inl timeoutError)))
      (janeNewChat ''fever'' ''I have a fever''))) =
     [\<lparr>msg_type = User, content = Some ''I have a fever'', msg_name = Some ''Jane'',
       additional = None\<rparr>] \<and>
   error (fst (handleSubmit (api_createChat (answer (Inl timeoutError)))
      (janeNewChat ''fever'' ''I have a fever''))) =
     ''Request timed out. Please check your connection and try again.'' \<and>
   loading (fst (handleSubmit (api_createChat (answer (Inl timeoutError)))
      (janeNewChat ''fever'' ''I have a fever''))) = False"
proof -
  let ?s = "janeNewChat ''fever'' ''I have a fever''"
  let ?timedOut = "''Request timed out. Please check your connection and try again.''"
  have h1: "validate ?s = None"
    by (simp add: validate_None_iff janeNewChat_eq initialState_def blank_def isSpace_def)
  have h2: "api_createChat (answer (Inl timeoutError)) (chatData ?s) = Inl ?timedOut"
    by (rule api_createChat_timeout [where e = timeoutError])
       (simp_all add: answer_def timeoutError_def)
  have u: "messages ?s @ [userMessage ?s] =
      [\<lparr>msg_type = User, content = Some ''I have a fever'', msg_name = Some ''Jane'',
        additional = None\<rparr>]"
    by (simp add: janeNewChat_eq initialState_def userMessage_def trim_def isSpace_def
        orElse_def)
  have o: "orElse ?timedOut ''An unexpected error occurred'' = ?timedOut"
    by (simp add: orElse_def)
  from C3_failed_call_keeps_user_turn
         [where s = ?s and createChat = "api_createChat (answer (Inl timeoutError))"
            and err = ?timedOut, OF h1 h2]
  show ?thesis using u h1 h2 o by simp
qed

section \<open>The first turn of a new chat\<close>

text \<open>
  C4 (as amended). A first submission with a non-blank name whose store call would
  succeed with a response object: when the message is blank it is blocked with the error \<open>Please describe your
  medical issue or symptoms\<close> and nothing is sent; when the message is not blank the
  request is sent once, the user's turn and the returned assistant turn are appended, and
  the state becomes active with the session id bound to \<open>response.id || response._id ||
  null\<close>.
\<close>

theorem C4_first_turn_requires_message:
  assumes "\<not> hasInitialSubmission s" and "\<not> blank (name s)"
    and "createChat (chatData s) = Inr (Some r)"
  shows "(if blank (message s) then
            handleSubmit createChat s =
              (s\<lparr>error := ''Please describe your medical issue or symptoms'',
                 fieldErrors := \<lparr>fe_name = False, fe_message = True\<rparr>\<rparr>, [])
          else
            hasInitialSubmission (fst (handleSubmit createChat s)) \<and>
            currentSessionId (fst (handleSubmit createChat s)) =
              firstTruthy (resp_id r) (resp_underscore_id r) \<and>
            messages (fst (handleSubmit createChat s)) =
              messages s @ [userMessage s,
                \<lparr>msg_type = Ai, content = Some (optOr (resp_ai_response r) []),
                 msg_name = None, additional = None\<rparr>] \<and>
            filter isStoreCall (snd (handleSubmit createChat s)) = [CreateChat (chatData s)])"
proof (cases "blank (message s)")
  case True
  then have "validate s =
      Some (s\<lparr>error := ''Please describe your medical issue or symptoms'',
               fieldErrors := \<lparr>fe_name = False, fe_message = True\<rparr>\<rparr>)"
    using assms by (simp add: validate_def trim_Nil_iff)
  then show ?thesis using True by (simp add: handleSubmit_def)
next
  case False
  then have v: "validate s = None" using assms by (simp add: validate_None_iff)
  show ?thesis
    using False assms v
    by (simp add: handleSubmit_success onSuccess_def pending_def Let_def)
qed

text \<open>Jane, fever, and a message: the session \<open>s1\<close> of the response is bound.\<close>

theorem C4_first_turn_requires_message_witness:
  "\<not> hasInitialSubmission (janeNewChat ''fever'' ''I have a fever'') \<and>
   \<not> blank (name (janeNewChat ''fever'' ''I have a fever'')) \<and>
   \<not> blank (message (janeNewChat ''fever'' ''I have a fever'')) \<and>
   hasInitialSubmission
     (fst (handleSubmit (answer (Inr (Some replyS1))) (janeNewChat ''fever'' ''I have a fever''))) \<and>
   currentSessionId
     (fst (handleSubmit (answer (Inr (Some replyS1))) (janeNewChat ''fever'' ''I have a fever''))) =
     Some ''s1'' \<and>
   messages
     (fst (handleSubmit (answer (Inr (Some replyS1))) (janeNewChat ''fever'' ''I have a fever''))) =
     [\<lparr>msg_type = User, content = Some ''I have a fever'', msg_name = Some ''Jane'',
       additional = None\<rparr>,
      \<lparr>msg_type = Ai, content = Some ''Rest and drink fluids.'', msg_name = None,
       additional = None\<rparr>]"
proof -
  let ?s = "janeNewChat ''fever'' ''I have a fever''"
  have h1: "\<not> hasInitialSubmission ?s" by (simp add: janeNewChat_eq initialState_def)
  have h2: "\<not> blank (name ?s)"
    by (simp add: janeNewChat_eq initialState_def blank_def isSpace_def)
  have h3: "answer (Inr (Some replyS1)) (chatData ?s) = Inr (Some replyS1)" by (simp add: answer_def)
  have h4: "\<not> blank (message ?s)"
    by (simp add: janeNewChat_eq initialState_def blank_def isSpace_def)
  have u: "messages ?s @ [userMessage ?s] =
      [\<lparr>msg_type = User, content = Some ''I have a fever'', msg_name = Some ''Jane'',
        additional = None\<rparr>]"
    by (simp add: janeNewChat_eq initialState_def userMessage_def trim_def isSpace_def
        orElse_def)
  have r: "firstTruthy (resp_id replyS1) (resp_underscore_id replyS1) = Some ''s1''"
    "optOr (resp_ai_response replyS1) [] = ''Rest and drink fluids.''"
    by (simp_all add: replyS1_def firstTruthy_def optOr_def orElse_def)
  from C4_first_turn_requires_message [of ?s "answer (Inr (Some replyS1))" replyS1, OF h1 h2 h3]
  show ?thesis using h1 h2 h4 u r by simp
qed

text \<open>
  The claim as stated fails: with name \<open>Jane\<close>, problem \<open>fever\<close> and an empty message
  nothing is sent to a store that would have answered; the error is set, no turn is
  appended and the state stays without a session.
\<close>

theorem C4_empty_message_is_blocked:
  "handleSubmit (answer (Inr (Some replyS1))) (janeNewChat ''fever'' []) =
     ((janeNewChat ''fever'' [])
        \<lparr>error := ''Please describe your medical issue or symptoms'',
         fieldErrors := \<lparr>fe_name = False, fe_message = True\<rparr>\<rparr>, []) \<and>
   \<not> hasInitialSubmission (fst (handleSubmit (answer (Inr (Some replyS1))) (janeNewChat ''fever'' []))) \<and>
   currentSessionId (fst (handleSubmit (answer (Inr (Some replyS1))) (janeNewChat ''fever'' []))) = None \<and>
   messages (fst (handleSubmit (answer (Inr (Some replyS1))) (janeNewChat ''fever'' []))) = []"
  by (simp add: form_defs submit_defs)

text \<open>
  The component without sessions is the one whose required field is the problem: there
  the same input is sent and both turns are appended, whatever the message; its state has
  no session id and no active flag.
\<close>

lemma handleSubmit_cs_success:
  assumes "\<not> blank (cs_name ls)" and "\<not> blank (cs_problem ls)"
    and "createChat (legacyChatData ls) = Inr (Some r)"
  shows "snd (handleSubmit_cs createChat ls) =
           [LegacyCreateChat (legacyChatData ls),
            LegacyChatComplete
              \<lparr>ldone_problem = trim (cs_problem ls),
               ldone_name = orElse (trim (cs_name ls)) ''Anonymous'',
               ldone_ai_response = resp_ai_response r, ldone_id = resp_id r\<rparr>] \<and>
         length (cs_messages (fst (handleSubmit_cs createChat ls))) =
           length (cs_messages ls) + 2 \<and>
         content (last (cs_messages (fst (handleSubmit_cs createChat ls)))) =
           resp_ai_response r"
  using assms by (simp add: handleSubmit_cs_def trim_Nil_iff Let_def)

lemma handleSubmit_cs_jane:
  "snd (handleSubmit_cs (answer (Inr (Some replyS1))) (legacyDraft ''Jane'' ''fever'' [])) =
     [LegacyCreateChat \<lparr>lreq_name = ''Jane'', lreq_problem = ''fever'', lreq_message = None\<rparr>,
      LegacyChatComplete
        \<lparr>ldone_problem = ''fever'', ldone_name = ''Jane'',
         ldone_ai_response = Some ''Rest and drink fluids.'', ldone_id = Some ''s1''\<rparr>]"
  by (simp add: handleSubmit_cs_def legacyDraft_def legacyChatData_def answer_def replyS1_def
      trim_def isSpace_def orElse_def orNull_def Let_def)

section \<open>A blank follow-up\<close>

text \<open>
  C5. In an active session a submission with a blank message returns at once: the error
  \<open>Please enter your question or message\<close> is set with the message field marked, no
  event (so no store call) is caused, and the transcript, the session id, the active flag
  and the stored patient info are what they were.
\<close>

theorem C5_blank_follow_up_is_blocked:
  assumes "hasInitialSubmission s" and "blank (message s)"
  shows "handleSubmit createChat s =
           (s\<lparr>error := ''Please enter your question or message'',
              fieldErrors := \<lparr>fe_name = False, fe_message = True\<rparr>\<rparr>, []) \<and>
         messages (fst (handleSubmit createChat s)) = messages s \<and>
         currentSessionId (fst (handleSubmit createChat s)) = currentSessionId s \<and>
         hasInitialSubmission (fst (handleSubmit createChat s)) \<and>
         initialPatientInfo (fst (handleSubmit createChat s)) = initialPatientInfo s"
  using assms by (simp add: handleSubmit_def validate_blank_message)

text \<open>Jane's session right after its first turn (the message field is empty again).\<close>

theorem C5_blank_follow_up_is_blocked_witness:
  "hasInitialSubmission janeActive \<and> blank (message janeActive) \<and>
   snd (handleSubmit (answer (Inr (Some replyS1))) janeActive) = [] \<and>
   error (fst (handleSubmit (answer (Inr (Some replyS1))) janeActive)) =
     ''Please enter your question or message'' \<and>
   messages (fst (handleSubmit (answer (Inr (Some replyS1))) janeActive)) = messages janeActive \<and>
   currentSessionId (fst (handleSubmit (answer (Inr (Some replyS1))) janeActive)) = Some ''s1''"
proof -
  have h1: "hasInitialSubmission janeActive" by (simp add: janeActive_eq)
  have h2: "blank (message janeActive)" by (simp add: janeActive_eq blank_def)
  have c: "currentSessionId janeActive = Some ''s1''" by (simp add: janeActive_eq)
  from C5_blank_follow_up_is_blocked [OF h1 h2, of "answer (Inr (Some replyS1))"]
  show ?thesis using h1 h2 c by simp
qed

section \<open>An empty reply\<close>

text \<open>
  C6 (as amended). When validation passes and the store call succeeds with a body that
  is a JSON object whose assistant content is missing or the empty string, the transcript
  grows by the user's turn and an assistant turn whose content is the empty string.
\<close>

theorem C6_empty_reply_is_appended:
  assumes "validate s = None" and "createChat (chatData s) = Inr (Some r)"
    and "\<not> truthy (resp_ai_response r)"
  shows "messages (fst (handleSubmit createChat s)) =
           messages s @ [userMessage s,
             \<lparr>msg_type = Ai, content = Some [], msg_name = None, additional = None\<rparr>]"
  using assms
  by (cases "resp_ai_response r")
     (simp_all add: handleSubmit_success onSuccess_def pending_def optOr_def orElse_def Let_def)

text \<open>Jane's first turn, answered by a response object without \<open>ai_response\<close>.\<close>

theorem C6_empty_reply_is_appended_witness:
  "validate (janeNewChat ''fever'' ''I have a fever'') = None \<and>
   \<not> truthy (resp_ai_response replyEmpty) \<and>
   messages (fst (handleSubmit (answer (Inr (Some replyEmpty)))
      (janeNewChat ''fever'' ''I have a fever''))) =
     [\<lparr>msg_type = User, content = Some ''I have a fever'', msg_name = Some ''Jane'',
       additional = None\<rparr>,
      \<lparr>msg_type = Ai, content = Some [], msg_name = None, additional = None\<rparr>]"
proof -
  let ?s = "janeNewChat ''fever'' ''I have a fever''"
  have h1: "validate ?s = None"
    by (simp add: validate_None_iff janeNewChat_eq initialState_def blank_def isSpace_def)
  have h2: "answer (Inr (Some replyEmpty)) (chatData ?s) = Inr (Some replyEmpty)"
    by (simp add: answer_def)
  have h3: "\<not> truthy (resp_ai_response replyEmpty)" by (simp add: replyEmpty_def)
  have u: "messages ?s @ [userMessage ?s] =
      [\<lparr>msg_type = User, content = Some ''I have a fever'', msg_name = Some ''Jane'',
        additional = None\<rparr>]"
    by (simp add: janeNewChat_eq initialState_def userMessage_def trim_def isSpace_def
        orElse_def)
  from C6_empty_reply_is_appended
         [of ?s "answer (Inr (Some replyEmpty))" replyEmpty, OF h1 h2 h3]
  show ?thesis using h1 h3 u by simp
qed

text \<open>
  The claim as stated fails: Jane's first turn is answered with status 200 and the body
  \<open>null\<close>, a success without assistant content. Reading \<open>response.ai_response\<close> throws;
  the request was sent and the user's turn stays, but no assistant turn is appended, the
  error of the \<open>TypeError\<close> is shown, and the state does not become active.
\<close>

theorem C6_null_body_appends_no_reply:
  "validate (janeNewChat ''fever'' ''I have a fever'') = None \<and>
   snd (handleSubmit (answer (Inr None)) (janeNewChat ''fever'' ''I have a fever'')) =
     [CreateChat \<lparr>req_name = ''Jane'', req_problem = Some ''fever'',
                  req_message = ''I have a fever'', req_session_id = None\<rparr>] \<and>
   messages (fst (handleSubmit (answer (Inr None)) (janeNewChat ''fever'' ''I have a fever''))) =
     [\<lparr>msg_type = User, content = Some ''I have a fever'', msg_name = Some ''Jane'',
       additional = None\<rparr>] \<and>
   error (fst (handleSubmit (answer (Inr None)) (janeNewChat ''fever'' ''I have a fever''))) =
     nullRead ''ai_response'' \<and>
   error (fst (handleSubmit (answer (Inr None)) (janeNewChat ''fever'' ''I have a fever''))) \<noteq>
     [] \<and>
   \<not> hasInitialSubmission
       (fst (handleSubmit (answer (Inr None)) (janeNewChat ''fever'' ''I have a fever'')))"
  by (simp add: form_defs submit_defs)

section \<open>Refreshing the history list\<close>

text \<open>
  A failed fetch leaves the loading flag cleared in both variants. \<open>loadChatHistory\<close>
  empties the list whatever the failure; \<open>fetchChatHistory\<close> of \<open>App.js\<close> empties it
  unless the server answered with the body \<open>null\<close>.
\<close>

lemma loadChatHistory_failure:
  "loadChatHistory (api_fetchChatHistory (Inl e)) st =
     (st\<lparr>chatHistory := [], loadingHistory := False\<rparr>, [ListSessions])"
  by (simp add: loadChatHistory_def api_fetchChatHistory_def
      split: option.splits error_body.splits)

lemma fetchChatHistory_failure:
  "err_response e \<noteq> Some NullBody \<Longrightarrow>
   fetchChatHistory (Inl e) st =
     (st\<lparr>chatHistory := [], loadingHistory := False\<rparr>, [ListSessions])"
  by (auto simp add: fetchChatHistory_def Let_def split: option.splits error_body.splits)

lemma fetchChatHistory_loading:
  "loadingHistory (fst (fetchChatHistory get st)) = False"
  by (simp add: fetchChatHistory_def Let_def)

text \<open>
  C7. A failed refresh should leave the cached list empty and the loading flag cleared.
  \<open>fetchChatHistory\<close> of \<open>App.js\<close> does not when the server answers the request with an
  error status and the body \<open>null\<close>: with Jane's session in the list, the log line of the
  \<open>catch\<close> block throws before the list is emptied, so the list still shows the session;
  only the loading flag is cleared. \<open>loadChatHistory\<close>, on the same failure, empties the
  list.
\<close>

theorem C7_null_error_body_keeps_stale_list:
  "chatHistory (app startedInPlace) = [sessionS1] \<and>
   err_response nullBodyError = Some NullBody \<and>
   snd (fetchChatHistory (Inl nullBodyError) (app startedInPlace)) = [ListSessions] \<and>
   chatHistory (fst (fetchChatHistory (Inl nullBodyError) (app startedInPlace))) =
     [sessionS1] \<and>
   loadingHistory (fst (fetchChatHistory (Inl nullBodyError) (app startedInPlace))) = False \<and>
   chatHistory (fst (loadChatHistory (api_fetchChatHistory (Inl nullBodyError))
      (app startedInPlace))) = [] \<and>
   loadingHistory (fst (loadChatHistory (api_fetchChatHistory (Inl nullBodyError))
      (app startedInPlace))) = False"
  by (simp add: startedInPlace_eq nullBodyError_def fetchChatHistory_def loadChatHistory_def
      api_fetchChatHistory_def)

section \<open>Deleting a session\<close>

text \<open>
  What holds of a confirmed delete that the store accepts: when the deleted id is the
  \<open>id\<close> or \<open>_id\<close> of the chat that \<open>App\<close> holds as \<open>currentChat\<close>, \<open>currentChat\<close> becomes
  \<open>null\<close> and the effect resets the chat component; when \<open>currentChat\<close> is another chat, or
  \<open>null\<close>, the chat component is left as it is.
\<close>

lemma fetchChatHistory_currentChat:
  "currentChat (fst (fetchChatHistory get st)) = currentChat st"
  by (simp add: fetchChatHistory_def Let_def
      split: sum.splits option.splits error_body.splits)

lemma handleChatDelete_currentChat:
  "delete chatId = Inr () \<Longrightarrow>
   currentChat (fst (snd (handleChatDelete delete get chatId st))) =
     (case currentChat st of
        None \<Rightarrow> None
      | Some c \<Rightarrow> if chat_id c = chatId \<or> chat_underscore_id c = chatId then None else Some c)"
  by (cases "currentChat st")
     (simp_all add: handleChatDelete_def split_def Let_def fetchChatHistory_currentChat)

lemma confirmDelete_chat:
  "deletingChat (sidebar cl) = Some d \<Longrightarrow>
   chat (fst (confirmDelete delete get cl)) =
     (if sameObject
           (currentChat (fst (snd (handleChatDelete delete get
              (orOpt (chat_id d) (chat_underscore_id d)) (app cl)))))
           (currentChat (app cl))
      then chat cl
      else chatEffect
             (currentChat (fst (snd (handleChatDelete delete get
                (orOpt (chat_id d) (chat_underscore_id d)) (app cl)))))
             (chat cl)) \<and>
   currentChat (app (fst (confirmDelete delete get cl))) =
     currentChat (fst (snd (handleChatDelete delete get
        (orOpt (chat_id d) (chat_underscore_id d)) (app cl))))"
  by (simp add: confirmDelete_def handleConfirmDelete_def commitApp_def split_def Let_def)

lemma confirmDelete_selected:
  assumes "deletingChat (sidebar cl) = Some d"
    and "delete (orOpt (chat_id d) (chat_underscore_id d)) = Inr ()"
    and "currentChat (app cl) = Some c"
    and "chat_id c = orOpt (chat_id d) (chat_underscore_id d) \<or>
         chat_underscore_id c = orOpt (chat_id d) (chat_underscore_id d)"
  shows "currentChat (app (fst (confirmDelete delete get cl))) = None \<and>
         chat (fst (confirmDelete delete get cl)) = resetChat (chat cl)"
proof -
  have "currentChat (fst (snd (handleChatDelete delete get
          (orOpt (chat_id d) (chat_underscore_id d)) (app cl)))) = None"
    using assms(2-4) by (simp add: handleChatDelete_currentChat)
  then show ?thesis
    using assms(1,3) by (simp add: confirmDelete_chat chatEffect_def sameObject_def)
qed

lemma confirmDelete_not_selected:
  assumes "deletingChat (sidebar cl) = Some d"
    and "delete (orOpt (chat_id d) (chat_underscore_id d)) = Inr ()"
    and "case currentChat (app cl) of
           None \<Rightarrow> True
         | Some c \<Rightarrow> chat_id c \<noteq> orOpt (chat_id d) (chat_underscore_id d) \<and>
                     chat_underscore_id c \<noteq> orOpt (chat_id d) (chat_underscore_id d)"
  shows "currentChat (app (fst (confirmDelete delete get cl))) = currentChat (app cl) \<and>
         chat (fst (confirmDelete delete get cl)) = chat cl"
proof -
  have "currentChat (fst (snd (handleChatDelete delete get
          (orOpt (chat_id d) (chat_underscore_id d)) (app cl)))) = currentChat (app cl)"
    using assms(2,3)
    by (cases "currentChat (app cl)") (simp_all add: handleChatDelete_currentChat)
  then show ?thesis
    using assms(1) by (simp add: confirmDelete_chat sameObject_def)
qed

text \<open>
  C8. A confirmed, successful delete of the session that is the active conversation
  should clear the chat component. The code does so only for a conversation selected from
  the history. Here Jane starts a new chat in the mounted application and her first turn
  creates session \<open>s1\<close>, which the refreshed history lists while \<open>currentChat\<close> stays
  \<open>null\<close>; she deletes \<open>s1\<close> in the sidebar and the store accepts. The history is
  refreshed, but the chat component is exactly as before: active, with its transcript,
  bound to \<open>s1\<close>, and its next request still carries \<open>session_id = s1\<close>.
\<close>

theorem C8_delete_of_session_started_in_place:
  "currentChat (app startedInPlace) = None \<and>
   chatHistory (app startedInPlace) = [sessionS1] \<and>
   hasInitialSubmission (chat startedInPlace) \<and>
   currentSessionId (chat startedInPlace) = chat_id sessionS1 \<and>
   snd deletedInPlace = [DeleteSession (Some ''s1''), ListSessions] \<and>
   chatHistory (app (fst deletedInPlace)) = [] \<and>
   chat (fst deletedInPlace) = chat startedInPlace \<and>
   chat (fst deletedInPlace) \<noteq> resetChat (chat startedInPlace) \<and>
   length (messages (chat (fst deletedInPlace))) = 2 \<and>
   req_session_id (chatData (changeMessage ''Any advice?'' (chat (fst deletedInPlace)))) =
     Some ''s1''"
  by (simp add: deletedInPlace_def startedInPlace_eq client_defs answer_def resetChat_def
      changeMessage_def chatData_def)

section \<open>Renaming a session\<close>

lemma handleChatUpdate_store_calls:
  "filter isStoreCall (snd (snd (handleChatUpdate patch get chatId updates st))) =
     UpdateSession chatId updates #
     (case patch chatId updates of Inr _ \<Rightarrow> [ListSessions] | Inl _ \<Rightarrow> [])"
  by (simp add: handleChatUpdate_def fetchChatHistory_def Let_def
      split: sum.splits option.splits error_body.splits)

lemma saveRename_events:
  "\<not> blank (newChatName (sidebar cl)) \<Longrightarrow>
   snd (saveRename patch get chatId cl) =
     snd (snd (handleChatUpdate patch get chatId
        \<lparr>upd_problem = Some (trim (newChatName (sidebar cl))), upd_pinned = None\<rparr> (app cl)))"
  by (cases "handleChatUpdate patch get chatId
        \<lparr>upd_problem = Some (trim (newChatName (sidebar cl))), upd_pinned = None\<rparr> (app cl)")
     (auto simp add: saveRename_def handleSaveRename_def trim_Nil_iff split: sum.splits)

text \<open>
  C9. Saving a rename whose new title is blank makes no store call: no event is caused,
  the rename state of the sidebar is reset and the rest of the client, the history list
  with its titles included, is untouched; whatever callback the sidebar was given is not
  called. Saving a non-blank title sends one update, to the given session, whose body is
  exactly \<open>{problem: trimmed title}\<close>; the only further store call is the refresh that
  follows when the update succeeds.
\<close>

theorem C9_rename_blank_or_partial_update:
  "(if blank (newChatName (sidebar cl)) then
      saveRename patch get chatId cl =
        (cl\<lparr>sidebar := (sidebar cl)\<lparr>renamingChatId := None, newChatName := []\<rparr>\<rparr>, []) \<and>
      handleSaveRename onChatUpdate chatId (sidebar cl, parent) =
        (((sidebar cl)\<lparr>renamingChatId := None, newChatName := []\<rparr>, parent), [])
    else
      filter isStoreCall (snd (saveRename patch get chatId cl)) =
        UpdateSession chatId
          \<lparr>upd_problem = Some (trim (newChatName (sidebar cl))), upd_pinned = None\<rparr> #
        (case patch chatId
                \<lparr>upd_problem = Some (trim (newChatName (sidebar cl))), upd_pinned = None\<rparr> of
           Inr _ \<Rightarrow> [ListSessions] | Inl _ \<Rightarrow> []))"
proof (cases "blank (newChatName (sidebar cl))")
  case True
  then show ?thesis
    by (simp add: saveRename_def handleSaveRename_def commitApp_def sameObject_def trim_Nil_iff)
next
  case False
  then show ?thesis
    by (simp add: saveRename_events handleChatUpdate_store_calls)
qed

text \<open>
  Jane's session in the history, renamed in the sidebar first to three spaces, then to
  \<open>Flu season\<close> with spaces around it.
\<close>

theorem C9_rename_blank_or_partial_update_witness:
  "blank (newChatName (sidebar
      (inSidebar (changeNewChatName ''   '')
         (inSidebar (handleRename sessionS1) startedInPlace)))) \<and>
   snd (saveRename (answer (answer (Inr ()))) (Inr [sessionS1]) (Some ''s1'')
      (inSidebar (changeNewChatName ''   '')
         (inSidebar (handleRename sessionS1) startedInPlace))) = [] \<and>
   chatHistory (app (fst (saveRename (answer (answer (Inr ()))) (Inr [sessionS1]) (Some ''s1'')
      (inSidebar (changeNewChatName ''   '')
         (inSidebar (handleRename sessionS1) startedInPlace))))) = [sessionS1] \<and>
   \<not> blank (newChatName (sidebar
      (inSidebar (changeNewChatName '' Flu season '')
         (inSidebar (handleRename sessionS1) startedInPlace)))) \<and>
   filter isStoreCall
     (snd (saveRename (answer (answer (Inr ()))) (Inr [sessionS1]) (Some ''s1'')
        (inSidebar (changeNewChatName '' Flu season '')
           (inSidebar (handleRename sessionS1) startedInPlace)))) =
     [UpdateSession (Some ''s1'') \<lparr>upd_problem = Some ''Flu season'', upd_pinned = None\<rparr>,
      ListSessions]"
proof -
  let ?b = "inSidebar (changeNewChatName ''   '')
              (inSidebar (handleRename sessionS1) startedInPlace)"
  let ?f = "inSidebar (changeNewChatName '' Flu season '')
              (inSidebar (handleRename sessionS1) startedInPlace)"
  let ?patch = "answer (answer (Inr ())) :: string option \<Rightarrow> Updates \<Rightarrow> AxiosError + unit"
  have b: "blank (newChatName (sidebar ?b))"
    by (simp add: inSidebar_def changeNewChatName_def blank_def isSpace_def)
  have hb: "chatHistory (app ?b) = [sessionS1]"
    by (simp add: inSidebar_def startedInPlace_eq)
  have f: "\<not> blank (newChatName (sidebar ?f))"
    by (simp add: inSidebar_def changeNewChatName_def blank_def isSpace_def)
  have t: "trim (newChatName (sidebar ?f)) = ''Flu season''"
    by (simp add: inSidebar_def changeNewChatName_def trim_def isSpace_def)
  have p: "?patch (Some ''s1'') \<lparr>upd_problem = Some ''Flu season'', upd_pinned = None\<rparr> = Inr ()"
    by (simp add: answer_def)
  from C9_rename_blank_or_partial_update
         [where cl = ?b and patch = ?patch and get = "Inr [sessionS1]"
            and chatId = "Some ''s1''" and onChatUpdate = None and parent = "()"]
    C9_rename_blank_or_partial_update
         [where cl = ?f and patch = ?patch and get = "Inr [sessionS1]"
            and chatId = "Some ''s1''" and onChatUpdate = None and parent = "()"]
  show ?thesis using b hb f by (simp add: t p)
qed

section \<open>A session bound to no id\<close>







end
